theory Spec2Isabelle
  imports Complex_Main "HOL-Library.Word" "HOL-Library.Finite_Map"
begin

unbundle bit_operations_syntax

section \<open>Data model\<close>

text \<open>
  Go's \<open>int64\<close>, \<open>uint64\<close>, \<open>uint8\<close> and \<open>int\<close> (64 bits on the build targets) are
  words: \<open>+\<close> wraps as in Go. \<open>float64\<close> is \<open>real\<close> (rounding, NaN and infinities are
  not modelled). A \<open>time.Time\<close> is a number of nanoseconds since the Unix epoch.
\<close>

type_synonym int64 = "64 word"
type_synonym uint64 = "64 word"
type_synonym uint8 = "8 word"
type_synonym float64 = real
type_synonym time = int

text \<open>\<open>wiiudownloader.TitleEntry\<close>, as the handlers use it.\<close>

record TitleEntry =
  TitleID :: uint64
  Name :: string
  Region :: uint8

text \<open>
  \<open>APIProgressReporter\<close> (cmd/wiiu-api/main.go). Its \<open>job\<close> field points back at the
  job that owns it (\<open>job.progress.job == job\<close>), so the reporter is stored inside the
  job record and its methods are functions on the job; \<open>mu\<close> is not modelled.
\<close>

record APIProgressReporter =
  startTime_api :: time

text \<open>
  \<open>DownloadJob\<close>. The field \<open>TitleID\<close> is named \<open>JobTitleID\<close> here; \<open>ctx\<close> and
  \<open>cancel\<close> are the one flag \<open>ctx_done\<close>, which calling \<open>cancel()\<close> sets.
\<close>

record DownloadJob =
  ID :: string
  JobTitleID :: string
  TitleName :: string
  Status :: string
  Progress :: float64
  DownloadSize :: int64
  Downloaded :: int64
  Speed :: string
  ETA :: string
  Error :: string
  OutputDir :: string
  StartTime :: time
  EndTime :: "time option"
  Decrypt :: bool
  DeleteEncrypted :: bool
  ctx_done :: bool
  progress :: APIProgressReporter

text \<open>
  What a call of \<open>UpdateDownloadProgress\<close> reads from outside the record: the clock, and
  the two renderings \<open>formatBytes(int64(speed))\<close> and
  \<open>formatDuration(time.Duration(remaining) * time.Second)\<close>, whose \<open>fmt.Sprintf\<close> text
  is taken as given.
\<close>

record clock =
  now :: time
  renderSpeed :: "float64 \<Rightarrow> string"
  renderETA :: "float64 \<Rightarrow> string"

text \<open>
  Lines written to standard output by the console reporter: which \<open>Printf\<close> ran and the
  counters it printed. The percentage and ETA on the progress line are computed from the
  two counters and the clock; their text is not modelled.
\<close>

datatype console =
    Print_Downloading string
  | Print_Progress int64 int64
  | Print_Decryption float64
  | Print_Completed string int64 int64

text \<open>
  \<open>CLIProgressReporter\<close> (cmd/wiiu-cli/progress.go). \<open>fileProgress\<close> is a Go map: a
  finite map. \<open>stdout\<close> collects what the methods print.
\<close>

record CLIProgressReporter =
  gameTitle :: string
  totalSize :: int64
  downloadedSize :: int64
  startTime :: time
  cancelled :: bool
  fileProgress :: "(string, int64) fmap"
  totalFiles :: int64
  completedFiles :: int64
  stdout :: "console list"

section \<open>The service reporter\<close>

definition SetGameTitle_api :: "string \<Rightarrow> DownloadJob \<Rightarrow> DownloadJob" where
  "SetGameTitle_api title j = j\<lparr>TitleName := title\<rparr>"

definition since_seconds :: "clock \<Rightarrow> time \<Rightarrow> float64" where
  \<comment> \<open>\<open>time.Since(t).Seconds()\<close>\<close>
  "since_seconds clk t = real_of_int (now clk - t) / 1000000000"

definition UpdateDownloadProgress_api ::
  "clock \<Rightarrow> int64 \<Rightarrow> string \<Rightarrow> DownloadJob \<Rightarrow> DownloadJob" where
  "UpdateDownloadProgress_api clk downloaded filename j =
     (let j1 = j\<lparr>Downloaded := downloaded\<rparr> in
      if 0 <s DownloadSize j1 then
        (let j2 = j1\<lparr>Progress :=
                    real_of_int (sint downloaded) / real_of_int (sint (DownloadSize j1)) * 100\<rparr>;
             elapsed = since_seconds clk (startTime_api (progress j2))
         in if elapsed > 0 then
              (let speed = real_of_int (sint downloaded) / elapsed;
                   j3 = j2\<lparr>Speed := renderSpeed clk speed @ ''/s''\<rparr>
               in if speed > 0 then
                    (let remaining = real_of_int (sint (DownloadSize j3 - downloaded)) / speed
                     in j3\<lparr>ETA := renderETA clk remaining\<rparr>)
                  else j3)
            else j2)
      else j1)"

definition UpdateDecryptionProgress_api :: "float64 \<Rightarrow> DownloadJob \<Rightarrow> DownloadJob" where
  "UpdateDecryptionProgress_api p j = j\<lparr>Progress := p\<rparr>"

definition Cancelled_api :: "DownloadJob \<Rightarrow> bool" where
  "Cancelled_api j = (Status j = ''cancelled'')"

definition SetCancelled_api :: "DownloadJob \<Rightarrow> DownloadJob" where
  "SetCancelled_api j = j\<lparr>Status := ''cancelled''\<rparr>"

definition SetDownloadSize_api :: "int64 \<Rightarrow> DownloadJob \<Rightarrow> DownloadJob" where
  "SetDownloadSize_api sz j = j\<lparr>DownloadSize := sz\<rparr>"

definition ResetTotals_api :: "DownloadJob \<Rightarrow> DownloadJob" where
  "ResetTotals_api j = j\<lparr>Downloaded := 0, Progress := 0\<rparr>"

definition MarkFileAsDone_api :: "string \<Rightarrow> DownloadJob \<Rightarrow> DownloadJob" where
  \<comment> \<open>empty body\<close>
  "MarkFileAsDone_api filename j = j"

definition SetTotalDownloadedForFile_api :: "string \<Rightarrow> int64 \<Rightarrow> DownloadJob \<Rightarrow> DownloadJob" where
  \<comment> \<open>empty body\<close>
  "SetTotalDownloadedForFile_api filename downloaded j = j"

definition SetStartTime_api :: "time \<Rightarrow> DownloadJob \<Rightarrow> DownloadJob" where
  \<comment> \<open>empty body\<close>
  "SetStartTime_api t j = j"

section \<open>The console reporter\<close>

definition zero_Time :: time where
  \<comment> \<open>the zero \<open>time.Time\<close>: 1 January of year 1, 00:00 UTC\<close>
  "zero_Time = - 62135596800 * 1000000000"

definition NewCLIProgressReporter :: CLIProgressReporter where
  "NewCLIProgressReporter =
     \<lparr>gameTitle = [], totalSize = 0, downloadedSize = 0, startTime = zero_Time, cancelled = False,
      fileProgress = fmempty, totalFiles = 0, completedFiles = 0, stdout = []\<rparr>"

definition SetGameTitle_cli :: "string \<Rightarrow> CLIProgressReporter \<Rightarrow> CLIProgressReporter" where
  "SetGameTitle_cli title c =
     c\<lparr>gameTitle := title, stdout := stdout c @ [Print_Downloading title]\<rparr>"

definition printProgress :: "CLIProgressReporter \<Rightarrow> CLIProgressReporter" where
  "printProgress c =
     (if totalSize c = 0 then c
      else c\<lparr>stdout := stdout c @ [Print_Progress (downloadedSize c) (totalSize c)]\<rparr>)"

definition sum_sizes :: "(string, int64) fmap \<Rightarrow> int64" where
  \<comment> \<open>\<open>for _, size := range c.fileProgress { c.downloadedSize += size }\<close> from 0; the
      iteration order of a Go map is unspecified, and \<open>+\<close> on \<open>int64\<close> is commutative\<close>
  "sum_sizes m = sum (\<lambda>k. the (fmlookup m k)) (fset (fmdom m))"

definition UpdateDownloadProgress_cli ::
  "int64 \<Rightarrow> string \<Rightarrow> CLIProgressReporter \<Rightarrow> CLIProgressReporter" where
  "UpdateDownloadProgress_cli downloaded filename c =
     (let c1 = c\<lparr>fileProgress := fmupd filename downloaded (fileProgress c)\<rparr>;
          c2 = c1\<lparr>downloadedSize := 0\<rparr>;
          c3 = c2\<lparr>downloadedSize := downloadedSize c2 + sum_sizes (fileProgress c2)\<rparr>
      in printProgress c3)"

definition UpdateDecryptionProgress_cli ::
  "float64 \<Rightarrow> CLIProgressReporter \<Rightarrow> CLIProgressReporter" where
  "UpdateDecryptionProgress_cli p c = c\<lparr>stdout := stdout c @ [Print_Decryption (p * 100)]\<rparr>"

definition Cancelled_cli :: "CLIProgressReporter \<Rightarrow> bool" where
  "Cancelled_cli c = cancelled c"

definition SetCancelled_cli :: "CLIProgressReporter \<Rightarrow> CLIProgressReporter" where
  "SetCancelled_cli c = c\<lparr>cancelled := True\<rparr>"

definition SetDownloadSize_cli :: "int64 \<Rightarrow> CLIProgressReporter \<Rightarrow> CLIProgressReporter" where
  "SetDownloadSize_cli sz c = c\<lparr>totalSize := sz\<rparr>"

definition ResetTotals_cli :: "CLIProgressReporter \<Rightarrow> CLIProgressReporter" where
  "ResetTotals_cli c =
     c\<lparr>downloadedSize := 0, totalSize := 0, completedFiles := 0, totalFiles := 0,
       fileProgress := fmempty\<rparr>"

definition MarkFileAsDone_cli :: "string \<Rightarrow> CLIProgressReporter \<Rightarrow> CLIProgressReporter" where
  "MarkFileAsDone_cli filename c =
     (let c1 = c\<lparr>completedFiles := completedFiles c + 1\<rparr>
      in c1\<lparr>stdout := stdout c1 @ [Print_Completed filename (completedFiles c1) (totalFiles c1)]\<rparr>)"

definition SetTotalDownloadedForFile_cli ::
  "string \<Rightarrow> int64 \<Rightarrow> CLIProgressReporter \<Rightarrow> CLIProgressReporter" where
  "SetTotalDownloadedForFile_cli filename downloaded c =
     c\<lparr>fileProgress := fmupd filename downloaded (fileProgress c)\<rparr>"

definition SetStartTime_cli :: "time \<Rightarrow> CLIProgressReporter \<Rightarrow> CLIProgressReporter" where
  "SetStartTime_cli t c =
     c\<lparr>startTime := t, totalFiles := of_nat (fcard (fmdom (fileProgress c)))\<rparr>"

section \<open>The reporter interface as a sequence of calls\<close>

text \<open>
  The ten methods of the progress-reporter interface that the fetcher calls. A run of the
  fetcher is a list of calls; the service reporter reads the clock at each call.
\<close>

datatype sink_call =
    SetGameTitle string
  | UpdateDownloadProgress int64 string
  | UpdateDecryptionProgress float64
  | Cancelled
  | SetCancelled
  | SetDownloadSize int64
  | ResetTotals
  | MarkFileAsDone string
  | SetTotalDownloadedForFile string int64
  | SetStartTime time

fun api_call :: "clock \<Rightarrow> sink_call \<Rightarrow> DownloadJob \<Rightarrow> DownloadJob" where
  "api_call clk (SetGameTitle t) j = SetGameTitle_api t j"
| "api_call clk (UpdateDownloadProgress d f) j = UpdateDownloadProgress_api clk d f j"
| "api_call clk (UpdateDecryptionProgress p) j = UpdateDecryptionProgress_api p j"
| "api_call clk Cancelled j = j"
| "api_call clk SetCancelled j = SetCancelled_api j"
| "api_call clk (SetDownloadSize n) j = SetDownloadSize_api n j"
| "api_call clk ResetTotals j = ResetTotals_api j"
| "api_call clk (MarkFileAsDone f) j = MarkFileAsDone_api f j"
| "api_call clk (SetTotalDownloadedForFile f d) j = SetTotalDownloadedForFile_api f d j"
| "api_call clk (SetStartTime t) j = SetStartTime_api t j"

fun cli_call :: "sink_call \<Rightarrow> CLIProgressReporter \<Rightarrow> CLIProgressReporter" where
  "cli_call (SetGameTitle t) c = SetGameTitle_cli t c"
| "cli_call (UpdateDownloadProgress d f) c = UpdateDownloadProgress_cli d f c"
| "cli_call (UpdateDecryptionProgress p) c = UpdateDecryptionProgress_cli p c"
| "cli_call Cancelled c = c"
| "cli_call SetCancelled c = SetCancelled_cli c"
| "cli_call (SetDownloadSize n) c = SetDownloadSize_cli n c"
| "cli_call ResetTotals c = ResetTotals_cli c"
| "cli_call (MarkFileAsDone f) c = MarkFileAsDone_cli f c"
| "cli_call (SetTotalDownloadedForFile f d) c = SetTotalDownloadedForFile_cli f d c"
| "cli_call (SetStartTime t) c = SetStartTime_cli t c"

fun api_run :: "(clock \<times> sink_call) list \<Rightarrow> DownloadJob \<Rightarrow> DownloadJob" where
  "api_run [] j = j"
| "api_run ((clk, call) # rest) j = api_run rest (api_call clk call j)"

fun cli_run :: "sink_call list \<Rightarrow> CLIProgressReporter \<Rightarrow> CLIProgressReporter" where
  "cli_run [] c = c"
| "cli_run (call # rest) c = cli_run rest (cli_call call c)"

fun dropped_in_service :: "sink_call \<Rightarrow> bool" where
  "dropped_in_service (MarkFileAsDone f) = True"
| "dropped_in_service (SetTotalDownloadedForFile f d) = True"
| "dropped_in_service (SetStartTime t) = True"
| "dropped_in_service call = False"

section \<open>Text helpers of the handlers\<close>

definition digit_char :: "nat \<Rightarrow> char" where
  "digit_char n = ''0123456789ABCDEF'' ! n"

function decimal_nat :: "nat \<Rightarrow> string" where
  "decimal_nat n = (if n < 10 then [digit_char n] else decimal_nat (n div 10) @ [digit_char (n mod 10)])"
  by pat_completeness auto
termination
  by (relation "measure id") auto

declare decimal_nat.simps [simp del]

definition Sprintf_d :: "int \<Rightarrow> string" where
  \<comment> \<open>\<open>fmt.Sprintf("%d", n)\<close>\<close>
  "Sprintf_d n = (if n < 0 then ''-'' @ decimal_nat (nat (- n)) else decimal_nat (nat n))"

definition Sprintf_016X :: "uint64 \<Rightarrow> string" where
  \<comment> \<open>\<open>fmt.Sprintf("%016X", id)\<close>: sixteen upper-case hexadecimal digits\<close>
  "Sprintf_016X w = map (\<lambda>i. digit_char (unat (drop_bit (4 * i) w AND 15))) (rev [0..<16])"

definition Unix :: "time \<Rightarrow> int" where
  \<comment> \<open>\<open>t.Unix()\<close>: whole seconds since the epoch\<close>
  "Unix t = t div 1000000000"

definition hex_digit_value :: "char \<Rightarrow> nat option" where
  "hex_digit_value c =
     (let b = (of_char c :: nat) in
      if 48 \<le> b \<and> b \<le> 57 then Some (b - 48)
      else if 97 \<le> b \<and> b \<le> 102 then Some (b - 87)
      else if 65 \<le> b \<and> b \<le> 70 then Some (b - 55)
      else None)"

fun parse_hex_digits :: "nat \<Rightarrow> string \<Rightarrow> nat option" where
  "parse_hex_digits n [] = Some n"
| "parse_hex_digits n (c # cs) =
     (case hex_digit_value c of
        None \<Rightarrow> None
      | Some d \<Rightarrow> if 2 ^ 64 \<le> 16 * n + d then None else parse_hex_digits (16 * n + d) cs)"

definition ParseUint_16_64 :: "string \<Rightarrow> uint64 option" where
  \<comment> \<open>\<open>strconv.ParseUint(s, 16, 64)\<close> of the Go standard library: \<open>None\<close> is a non-nil
      error (empty input, a character that is not a hexadecimal digit, or a value that
      does not fit 64 bits)\<close>
  "ParseUint_16_64 s = (if s = [] then None else map_option of_nat (parse_hex_digits 0 s))"

section \<open>Case-insensitive search\<close>

definition byte :: "char \<Rightarrow> uint8" where
  \<comment> \<open>\<open>s[i]\<close>: a Go string is indexed by bytes\<close>
  "byte c = of_char c"

definition equalIgnoreCase :: "string \<Rightarrow> string \<Rightarrow> bool" where
  "equalIgnoreCase a b =
     (if length a \<noteq> length b then False
      else list_all
             (\<lambda>(x, y). \<not> (byte x \<noteq> byte y \<and> byte x \<noteq> byte y + 32 \<and> byte x \<noteq> byte y - 32))
             (zip a b))"

definition containsIgnoreCaseHelper :: "string \<Rightarrow> string \<Rightarrow> bool" where
  "containsIgnoreCaseHelper s substr =
     list_ex (\<lambda>i. equalIgnoreCase (take (length substr) (drop i s)) substr)
       [0..<nat (int (length s) - int (length substr) + 1)]"

definition containsIgnoreCase :: "string \<Rightarrow> string \<Rightarrow> bool" where
  "containsIgnoreCase s substr =
     (length substr \<le> length s \<and> (s = substr \<or> containsIgnoreCaseHelper s substr))"

section \<open>The catalog package\<close>

text \<open>
  What the handlers import from package \<open>wiiudownloader\<close>, a separate package whose source
  lies outside \<open>cmd/\<close>: the category and region constants, the catalog, the rule that says
  which entries a category flag selects, and the two display functions.
\<close>

record wiiudownloader =
  TITLE_CATEGORY_GAME :: uint8
  TITLE_CATEGORY_UPDATE :: uint8
  TITLE_CATEGORY_DLC :: uint8
  TITLE_CATEGORY_DEMO :: uint8
  TITLE_CATEGORY_ALL :: uint8
  MCP_REGION_JAPAN :: uint8
  MCP_REGION_USA :: uint8
  MCP_REGION_EUROPE :: uint8
  titleEntry :: "TitleEntry list"
  inCategory :: "uint8 \<Rightarrow> TitleEntry \<Rightarrow> bool"
  GetFormattedRegion :: "uint8 \<Rightarrow> string"
  GetFormattedKind :: "uint64 \<Rightarrow> string"

definition GetTitleEntries :: "wiiudownloader \<Rightarrow> uint8 \<Rightarrow> TitleEntry list" where
  \<comment> \<open>Modelled from the spec: \<open>wiiudownloader.GetTitleEntries\<close> lies outside \<open>cmd/\<close>. "Category filtering selects by platform+category prefix groups"; the result
      is in "the catalog's natural/declaration order".\<close>
  "GetTitleEntries pkg category = filter (inCategory pkg category) (titleEntry pkg)"

definition GetTitleEntryFromTid :: "wiiudownloader \<Rightarrow> uint64 \<Rightarrow> TitleEntry" where
  \<comment> \<open>Modelled from the spec: \<open>wiiudownloader.GetTitleEntryFromTid\<close> lies outside
      \<open>cmd/\<close>. "lookup(id) \<rightarrow> Entry or not found", "a lookup by ID returns at most one
      entry"; the handlers read not-found as the zero \<open>TitleEntry\<close>.\<close>
  "GetTitleEntryFromTid pkg tid =
     (case find (\<lambda>e. TitleID e = tid) (titleEntry pkg) of
        Some e \<Rightarrow> e
      | None \<Rightarrow> \<lparr>TitleID = 0, Name = [], Region = 0\<rparr>)"

section \<open>Listing titles\<close>

record title_json =
  json_id :: string
  json_name :: string
  json_region :: string
  json_type :: string
  json_platform :: string

record start_request =
  req_TitleID :: string
  req_Decrypt :: bool
  req_DeleteEncrypted :: bool

text \<open>What a handler writes: \<open>http.Error(w, message, code)\<close> or a JSON body with its status.\<close>

datatype response =
    Http_Error nat string
  | Titles_json nat "title_json list"
  | Accepted_json string string string
  | Cancelled_json string string

fun status_code :: "response \<Rightarrow> nat" where
  "status_code (Http_Error code msg) = code"
| "status_code (Titles_json n ts) = 200"
| "status_code (Accepted_json job_id status title) = 202"
| "status_code (Cancelled_json status job_id) = 200"

definition getPlatformFromTitleID :: "uint64 \<Rightarrow> string" where
  "getPlatformFromTitleID titleID =
     (let titleHigh = drop_bit 32 titleID; masked = titleHigh AND 0xFFFFFFF0 in
      if masked = 0x00050000 then ''Wii U''
      else if masked = 0x00040000 then ''3DS''
      else if masked = 0x00000000 then (if titleHigh = 0x00000007 then ''vWii'' else ''Unknown'')
      else if masked = 0x00070000 then ''vWii''
      else if masked = 0x01000000 then ''Switch''
      else if masked = 0x00010000 then ''Wii''
      else ''Unknown'')"

definition categoryFlag :: "wiiudownloader \<Rightarrow> string \<Rightarrow> uint8 option" where
  \<comment> \<open>the \<open>switch category\<close>; \<open>None\<close> is the default branch\<close>
  "categoryFlag pkg category =
     (if category = ''game'' then Some (TITLE_CATEGORY_GAME pkg)
      else if category = ''update'' then Some (TITLE_CATEGORY_UPDATE pkg)
      else if category = ''dlc'' then Some (TITLE_CATEGORY_DLC pkg)
      else if category = ''demo'' then Some (TITLE_CATEGORY_DEMO pkg)
      else if category = ''all'' then Some (TITLE_CATEGORY_ALL pkg)
      else None)"

definition platformPrefixes :: "string \<Rightarrow> uint64 list option" where
  \<comment> \<open>the \<open>switch platform\<close>; \<open>None\<close> is the default branch\<close>
  "platformPrefixes platform =
     (if platform = ''wiiu'' then
        Some [0x00050000, 0x00050002, 0x00050010, 0x0005001B, 0x00050030, 0x0005000C, 0x0005000E]
      else if platform = ''vwii'' then
        Some [0x00000007, 0x00070002, 0x00070008]
      else if platform = ''switch'' then
        Some [0x01000000, 0x01000002, 0x01000080, 0x01000081, 0x01000082, 0x0100000C, 0x0100000E]
      else if platform = ''3ds'' then
        Some [0x00040000, 0x00040002, 0x00040010, 0x0004001B, 0x00040030, 0x0004000C, 0x0004000E]
      else None)"

definition regionMask :: "wiiudownloader \<Rightarrow> string \<Rightarrow> uint8 option" where
  \<comment> \<open>the \<open>switch region\<close>; \<open>None\<close> is the default branch\<close>
  "regionMask pkg region =
     (if region = ''japan'' then Some (MCP_REGION_JAPAN pkg)
      else if region = ''usa'' then Some (MCP_REGION_USA pkg)
      else if region = ''europe'' then Some (MCP_REGION_EUROPE pkg)
      else None)"

definition filterByPlatform :: "string \<Rightarrow> TitleEntry list \<Rightarrow> response + TitleEntry list" where
  \<comment> \<open>"Filter by platform if specified"\<close>
  "filterByPlatform platform entries =
     (if platform \<noteq> ''all'' then
        (case platformPrefixes platform of
           None \<Rightarrow> Inl (Http_Error 400 ''Invalid platform'')
         | Some prefixes \<Rightarrow>
             Inr (filter (\<lambda>entry. list_ex (\<lambda>prefix. drop_bit 32 (TitleID entry) = prefix) prefixes)
                    entries))
      else Inr entries)"

definition filterByRegion ::
  "wiiudownloader \<Rightarrow> string \<Rightarrow> TitleEntry list \<Rightarrow> response + TitleEntry list" where
  \<comment> \<open>"Filter by region if specified", service handler\<close>
  "filterByRegion pkg region entries =
     (if region \<noteq> [] \<and> region \<noteq> ''all'' then
        (case regionMask pkg region of
           None \<Rightarrow> Inl (Http_Error 400 ''Invalid region'')
         | Some regionMask1 \<Rightarrow> Inr (filter (\<lambda>entry. Region entry AND regionMask1 \<noteq> 0) entries))
      else Inr entries)"

definition filterBySearch :: "string \<Rightarrow> TitleEntry list \<Rightarrow> TitleEntry list" where
  \<comment> \<open>"Filter by search term if specified"\<close>
  "filterBySearch search entries =
     (if search \<noteq> [] then filter (\<lambda>entry. containsIgnoreCase (Name entry) search) entries
      else entries)"

definition title_to_json :: "wiiudownloader \<Rightarrow> TitleEntry \<Rightarrow> title_json" where
  "title_to_json pkg entry =
     \<lparr>json_id = Sprintf_016X (TitleID entry), json_name = Name entry,
      json_region = GetFormattedRegion pkg (Region entry),
      json_type = GetFormattedKind pkg (TitleID entry),
      json_platform = getPlatformFromTitleID (TitleID entry)\<rparr>"

definition handleListTitles ::
  "wiiudownloader \<Rightarrow> string \<Rightarrow> string \<Rightarrow> string \<Rightarrow> string \<Rightarrow> response" where
  \<comment> \<open>the four arguments are the query values \<open>category\<close>, \<open>search\<close>, \<open>region\<close> and
      \<open>platform\<close>, empty when the parameter is absent\<close>
  "handleListTitles pkg category0 search region platform0 =
     (let category = (if category0 = [] then ''game'' else category0);
          platform = (if platform0 = [] then ''all'' else platform0)
      in case categoryFlag pkg category of
           None \<Rightarrow> Http_Error 400 ''Invalid category''
         | Some flag \<Rightarrow>
             (case filterByPlatform platform (GetTitleEntries pkg flag) of
                Inl err \<Rightarrow> err
              | Inr entries1 \<Rightarrow>
                  (case filterByRegion pkg region entries1 of
                     Inl err \<Rightarrow> err
                   | Inr entries2 \<Rightarrow>
                       (let entries3 = filterBySearch search entries2
                        in Titles_json (length entries3) (map (title_to_json pkg) entries3)))))"

text \<open>
  The command runner's \<open>handleListSearch\<close>: \<open>Inl\<close> is the message printed before
  \<open>os.Exit(1)\<close>, \<open>Inr\<close> the entries it prints.
\<close>

definition filterByRegion_cli ::
  "wiiudownloader \<Rightarrow> string \<Rightarrow> TitleEntry list \<Rightarrow> string + TitleEntry list" where
  \<comment> \<open>"Filter by region if specified", command runner\<close>
  "filterByRegion_cli pkg regionStr entries =
     (if regionStr \<noteq> ''all'' then
        (case regionMask pkg regionStr of
           None \<Rightarrow> Inl (''Unknown region: '' @ regionStr)
         | Some regionMask1 \<Rightarrow> Inr (filter (\<lambda>entry. Region entry AND regionMask1 \<noteq> 0) entries))
      else Inr entries)"

definition handleListSearch ::
  "wiiudownloader \<Rightarrow> bool \<Rightarrow> string \<Rightarrow> string \<Rightarrow> string \<Rightarrow> string + TitleEntry list" where
  "handleListSearch pkg list search categoryStr regionStr =
     (case categoryFlag pkg categoryStr of
        None \<Rightarrow> Inl (''Unknown category: '' @ categoryStr)
      | Some category \<Rightarrow>
          (case filterByRegion_cli pkg regionStr (GetTitleEntries pkg category) of
             Inl msg \<Rightarrow> Inl msg
           | Inr entries \<Rightarrow> Inr (filterBySearch search entries)))"

section \<open>The job registry\<close>

text \<open>
  \<open>Server\<close>: the job map and the downloads directory (router, mutex and HTTP client are
  not modelled). The map holds the job records themselves. Two effects of the handlers on
  the world outside the struct are kept beside it: \<open>created_dirs\<close>, the directories that
  \<open>os.MkdirAll\<close> has made, and \<open>goroutines\<close>, the IDs of the jobs handed to
  \<open>go s.processDownload(job)\<close>.
\<close>

record Server =
  jobs :: "string \<rightharpoonup> DownloadJob"
  downloadsDir :: string
  created_dirs :: "string list"
  goroutines :: "string list"

text \<open>
  What a handler reads from the host: the clock (one reading for the whole handler),
  whether \<open>os.MkdirAll\<close> succeeds on a path, and \<open>filepath.Join\<close>.
\<close>

record host =
  time_Now :: time
  MkdirAll_ok :: "string \<Rightarrow> bool"
  filepath_Join :: "string \<Rightarrow> string \<Rightarrow> string"

definition NewAPIProgressReporter :: "time \<Rightarrow> APIProgressReporter" where
  "NewAPIProgressReporter t = \<lparr>startTime_api = t\<rparr>"

definition handleStartDownload ::
  "wiiudownloader \<Rightarrow> host \<Rightarrow> start_request option \<Rightarrow> Server \<Rightarrow> response \<times> Server" where
  \<comment> \<open>\<open>body\<close> is the decoded request, \<open>None\<close> when \<open>Decode\<close> returns an error\<close>
  "handleStartDownload pkg h body s =
     (case body of
        None \<Rightarrow> (Http_Error 400 ''Invalid JSON'', s)
      | Some req \<Rightarrow>
          if req_TitleID req = [] then (Http_Error 400 ''title_id is required'', s)
          else
            (case ParseUint_16_64 (req_TitleID req) of
               None \<Rightarrow> (Http_Error 400 ''Invalid title ID format'', s)
             | Some tid \<Rightarrow>
                 (let entry = GetTitleEntryFromTid pkg tid in
                  if TitleID entry = 0 then (Http_Error 404 ''Title not found'', s)
                  else
                    (let jobID = req_TitleID req @ ''_'' @ Sprintf_d (Unix (time_Now h));
                         outputDir = filepath_Join h (downloadsDir s) jobID
                     in if \<not> MkdirAll_ok h outputDir then
                          (Http_Error 500 ''Failed to create output directory'', s)
                        else
                          (let job =
                                 \<lparr>ID = jobID, JobTitleID = req_TitleID req, TitleName = Name entry,
                                  Status = ''pending'', Progress = 0, DownloadSize = 0,
                                  Downloaded = 0, Speed = [], ETA = [], Error = [],
                                  OutputDir = outputDir, StartTime = time_Now h, EndTime = None,
                                  Decrypt = req_Decrypt req,
                                  DeleteEncrypted = req_DeleteEncrypted req,
                                  ctx_done = False,
                                  progress = NewAPIProgressReporter (time_Now h)\<rparr>
                           in (Accepted_json jobID ''started'' (Name entry),
                               s\<lparr>created_dirs := created_dirs s @ [outputDir],
                                 jobs := (jobs s)(jobID \<mapsto> job),
                                 goroutines := goroutines s @ [jobID]\<rparr>))))))"

definition handleCancelDownload :: "host \<Rightarrow> string \<Rightarrow> Server \<Rightarrow> response \<times> Server" where
  "handleCancelDownload h jobID s =
     (case jobs s jobID of
        None \<Rightarrow> (Http_Error 404 ''Job not found'', s)
      | Some job \<Rightarrow>
          if Status job = ''completed'' \<or> Status job = ''failed'' then
            (Http_Error 400 ''Cannot cancel completed or failed job'', s)
          else
            (let job1 = job\<lparr>ctx_done := True\<rparr>;
                 job2 = job1\<lparr>Status := ''cancelled''\<rparr>;
                 job3 = job2\<lparr>EndTime := Some (time_Now h)\<rparr>
             in (Cancelled_json ''cancelled'' jobID, s\<lparr>jobs := (jobs s)(jobID \<mapsto> job3)\<rparr>)))"

text \<open>
  How the one call of \<open>wiiudownloader.DownloadTitle\<close> ends: it returns an error value
  (\<open>None\<close> is \<open>nil\<close>, \<open>Some msg\<close> an error whose \<open>Error()\<close> is \<open>msg\<close>), or it panics.
\<close>

datatype fetch_outcome = Returns "string option" | Panics

text \<open>
  \<open>processDownload\<close>, the body of a job's goroutine. The fetcher is a parameter: given the
  job record at the moment of the call it yields the record as it stands when the call
  ends (the fetcher's calls on \<open>job.progress\<close> and the handlers that ran meanwhile write to
  the same record) and how the call ended. The function has no \<open>defer\<close> and no
  \<open>recover\<close>, so none of its statements runs after a panic; the flag in the result says
  that the call panicked. What an unrecovered panic then does is the Go runtime's
  business (it ends the whole server process, registry included) and is not modelled:
  nothing is stated here about a run whose flag is \<open>True\<close>.
\<close>

definition processDownload ::
  "(DownloadJob \<Rightarrow> DownloadJob \<times> fetch_outcome) \<Rightarrow> time \<Rightarrow> DownloadJob \<Rightarrow> DownloadJob \<times> bool" where
  "processDownload DownloadTitle time_now job =
     (let job1 = job\<lparr>Status := ''downloading''\<rparr> in
      case DownloadTitle job1 of
        (job2, Panics) \<Rightarrow> (job2, True)
      | (job2, Returns err) \<Rightarrow>
          (let job3 = job2\<lparr>EndTime := Some time_now\<rparr> in
           case err of
             Some msg \<Rightarrow>
               if Status job3 = ''cancelled'' then (job3\<lparr>Status := ''cancelled''\<rparr>, False)
               else (job3\<lparr>Status := ''failed'', Error := msg\<rparr>, False)
           | None \<Rightarrow> (job3\<lparr>Status := ''completed'', Progress := 100\<rparr>, False)))"

definition terminal :: "string \<Rightarrow> bool" where
  "terminal st = (st = ''completed'' \<or> st = ''failed'' \<or> st = ''cancelled'')"

section \<open>Reference notions used in the statements\<close>

definition toLower_char :: "char \<Rightarrow> char" where
  \<comment> \<open>lower-casing of one ASCII byte: \<open>A\<close>..\<open>Z\<close> (65..90) move up by 32, every other byte stays\<close>
  "toLower_char c =
     (if 65 \<le> (of_char c :: nat) \<and> (of_char c :: nat) \<le> 90 then char_of ((of_char c :: nat) + 32)
      else c)"

definition toLower :: "string \<Rightarrow> string" where
  "toLower s = map toLower_char s"

definition is_substring :: "string \<Rightarrow> string \<Rightarrow> bool" where
  \<comment> \<open>\<open>is_substring sub s\<close>: \<open>sub\<close> occurs in \<open>s\<close> as a contiguous block\<close>
  "is_substring sub s = list_ex (\<lambda>i. take (length sub) (drop i s) = sub) [0..<Suc (length s)]"

definition latest :: "(string \<times> int64) list \<Rightarrow> string \<Rightarrow> int64" where
  \<comment> \<open>the value most recently reported for a key in a sequence of (key, value) reports\<close>
  "latest reports k = the (map_of (rev reports) k)"

definition file_key :: "sink_call \<Rightarrow> string option" where
  \<comment> \<open>the file key a call carries, if any\<close>
  "file_key call =
     (case call of
        UpdateDownloadProgress d f \<Rightarrow> Some f
      | SetTotalDownloadedForFile f d \<Rightarrow> Some f
      | _ \<Rightarrow> None)"

text \<open>
  A run of byte reports: each item is the clock reading at the call, the file key and the
  value reported. The same run is fed to the console reporter and to the service reporter.
\<close>

definition cli_reports :: "(clock \<times> string \<times> int64) list \<Rightarrow> sink_call list" where
  "cli_reports tr = map (\<lambda>(clk, k, v). UpdateDownloadProgress v k) tr"

definition api_reports :: "(clock \<times> string \<times> int64) list \<Rightarrow> (clock \<times> sink_call) list" where
  "api_reports tr = map (\<lambda>(clk, k, v). (clk, UpdateDownloadProgress v k)) tr"

text \<open>
  The recorded progress state of a reporter: title, expected total, aggregate downloaded,
  cancelled flag.
\<close>

definition recorded_cli :: "CLIProgressReporter \<Rightarrow> string \<times> int64 \<times> int64 \<times> bool" where
  "recorded_cli c = (gameTitle c, totalSize c, downloadedSize c, Cancelled_cli c)"

definition recorded_api :: "DownloadJob \<Rightarrow> string \<times> int64 \<times> int64 \<times> bool" where
  "recorded_api j = (TitleName j, DownloadSize j, Downloaded j, Cancelled_api j)"

section \<open>Example data for the concrete evaluations\<close>

definition example_pkg :: wiiudownloader where
  "example_pkg =
     \<lparr>TITLE_CATEGORY_GAME = 0, TITLE_CATEGORY_UPDATE = 1, TITLE_CATEGORY_DLC = 2,
      TITLE_CATEGORY_DEMO = 3, TITLE_CATEGORY_ALL = 4,
      MCP_REGION_JAPAN = 1, MCP_REGION_USA = 2, MCP_REGION_EUROPE = 4,
      titleEntry =
        [\<lparr>TitleID = 0x00050000101C9500, Name = ''Super Mario 3D World'', Region = 2\<rparr>,
         \<lparr>TitleID = 0x00050000101C9600, Name = ''Super Mario 3D World'', Region = 4\<rparr>,
         \<lparr>TitleID = 0x00040000000B8B00, Name = ''Sonic'', Region = 1\<rparr>],
      inCategory = (\<lambda>flag entry. flag = 4 \<or> (flag = 0 \<and> drop_bit 32 (TitleID entry) AND 0xF = 0)),
      GetFormattedRegion = (\<lambda>r. if r = 1 then ''Japan'' else if r = 2 then ''USA'' else ''Europe''),
      GetFormattedKind = (\<lambda>t. ''Game'')\<rparr>"

definition example_host :: host where
  "example_host =
     \<lparr>time_Now = 1700000000 * 1000000000, MkdirAll_ok = (\<lambda>path. True),
      filepath_Join = (\<lambda>dir name. dir @ ''/'' @ name)\<rparr>"

definition example_clock :: clock where
  "example_clock =
     \<lparr>now = 1700000001 * 1000000000, renderSpeed = (\<lambda>x. []), renderETA = (\<lambda>x. [])\<rparr>"

definition example_server :: Server where
  \<comment> \<open>\<open>NewServer("/downloads")\<close>\<close>
  "example_server =
     \<lparr>jobs = Map.empty, downloadsDir = ''/downloads'', created_dirs = [], goroutines = []\<rparr>"

definition example_request :: start_request where
  "example_request =
     \<lparr>req_TitleID = ''00050000101C9500'', req_Decrypt = True, req_DeleteEncrypted = False\<rparr>"

definition example_job :: DownloadJob where
  \<comment> \<open>the job that \<open>handleStartDownload\<close> registers for \<open>example_request\<close>\<close>
  "example_job =
     \<lparr>ID = ''00050000101C9500_1700000000'', JobTitleID = ''00050000101C9500'',
      TitleName = ''Super Mario 3D World'', Status = ''pending'', Progress = 0,
      DownloadSize = 0, Downloaded = 0, Speed = [], ETA = [], Error = [],
      OutputDir = ''/downloads/00050000101C9500_1700000000'',
      StartTime = 1700000000 * 1000000000, EndTime = None, Decrypt = True,
      DeleteEncrypted = False, ctx_done = False,
      progress = \<lparr>startTime_api = 1700000000 * 1000000000\<rparr>\<rparr>"

section \<open>Properties of the service reporter\<close>

text \<open>
  C10. In the service reporter, \<open>SetTotalDownloadedForFile\<close>, \<open>MarkFileAsDone\<close> and
  \<open>SetStartTime\<close> do nothing: for every job record (which holds the reporter) and every
  argument the record is returned as it was, so a run of the fetcher ends in the same
  record whether or not its per-file byte reports, file-completion reports and start-time
  reports are delivered.
\<close>

theorem api_per_file_reports_dropped:
  "SetTotalDownloadedForFile_api filename downloaded j = j
   \<and> MarkFileAsDone_api filename j = j
   \<and> SetStartTime_api t j = j
   \<and> api_run (filter (\<lambda>(clk, call). \<not> dropped_in_service call) calls) j = api_run calls j"
proof -
  have "api_run (filter (\<lambda>(clk, call). \<not> dropped_in_service call) calls) j = api_run calls j"
  proof (induction calls arbitrary: j)
    case Nil
    show ?case by simp
  next
    case (Cons a calls)
    obtain clk call where a: "a = (clk, call)" by (cases a)
    show ?case
      by (cases call)
        (simp_all add: a Cons.IH MarkFileAsDone_api_def SetTotalDownloadedForFile_api_def
          SetStartTime_api_def)
  qed
  then show ?thesis
    by (simp add: MarkFileAsDone_api_def SetTotalDownloadedForFile_api_def SetStartTime_api_def)
qed

section \<open>Properties of the job registry\<close>

text \<open>
  C1. A job whose state is terminal should keep it, and a job already cancelled when its
  fetch returns a nil error should stay cancelled. \<open>processDownload\<close> does otherwise: a
  job registered as downloading is cancelled through \<open>handleCancelDownload\<close> (status 200,
  state \<open>cancelled\<close>, a terminal state) while its fetch is running; when the fetch then
  returns nil, \<open>processDownload\<close> writes \<open>completed\<close> over \<open>cancelled\<close>.
\<close>

theorem processDownload_completes_cancelled_job:
  "(let s1 = s\<lparr>jobs := (jobs s)(jobID \<mapsto> job\<lparr>Status := ''downloading''\<rparr>)\<rparr>;
        (r, s2) = handleCancelDownload h jobID s1;
        job2 = the (jobs s2 jobID);
        (job3, panicked) = processDownload (\<lambda>j. (job2, Returns None)) t job
    in status_code r = 200 \<and> Status job2 = ''cancelled'' \<and> terminal (Status job2)
       \<and> Status job3 = ''completed'' \<and> \<not> panicked)"
  by (simp add: handleCancelDownload_def processDownload_def terminal_def Let_def)

text \<open>
  C5. A title ID that parses as a 64-bit hexadecimal number and is not the ID of any
  catalog entry makes \<open>handleStartDownload\<close> answer 404 "Title not found", and the server
  is returned unchanged: no job in the map, no directory created, no goroutine started.
\<close>

theorem handleStartDownload_unknown_title:
  assumes "ParseUint_16_64 (req_TitleID req) = Some tid"
    and "tid \<notin> TitleID ` set (titleEntry pkg)"
  shows "handleStartDownload pkg h (Some req) s = (Http_Error 404 ''Title not found'', s)"
proof -
  have ne: "req_TitleID req \<noteq> []"
    using assms(1) by (auto simp: ParseUint_16_64_def)
  have "find (\<lambda>e. TitleID e = tid) (titleEntry pkg) = None"
    using assms(2) by (auto simp: find_None_iff)
  then have "TitleID (GetTitleEntryFromTid pkg tid) = 0"
    by (simp add: GetTitleEntryFromTid_def)
  then show ?thesis
    using ne assms(1) by (simp add: handleStartDownload_def)
qed

theorem handleStartDownload_unknown_title_witness:
  "ParseUint_16_64 (req_TitleID (example_request\<lparr>req_TitleID := ''1234567890123456''\<rparr>))
     = Some 0x1234567890123456
   \<and> (0x1234567890123456 :: uint64) \<notin> TitleID ` set (titleEntry example_pkg)
   \<and> handleStartDownload example_pkg example_host
         (Some (example_request\<lparr>req_TitleID := ''1234567890123456''\<rparr>)) example_server
       = (Http_Error 404 ''Title not found'', example_server)"
proof -
  have p: "ParseUint_16_64 (req_TitleID (example_request\<lparr>req_TitleID := ''1234567890123456''\<rparr>))
     = Some 0x1234567890123456"
    by (simp add: ParseUint_16_64_def hex_digit_value_def)
  have n: "(0x1234567890123456 :: uint64) \<notin> TitleID ` set (titleEntry example_pkg)"
    by (simp add: example_pkg_def)
  show ?thesis
    using p n handleStartDownload_unknown_title [OF p n, of example_host example_server]
    by simp
qed

text \<open>
  C3, as claimed: a second cancellation after the first has taken effect fails with 400.
  Counterexample: the example job is started (202) and cancelled (200, state
  \<open>cancelled\<close>); cancelling it again answers 200, not 400.
\<close>

theorem handleCancelDownload_twice_counterexample:
  "(let (r0, s0) = handleStartDownload example_pkg example_host (Some example_request)
                     example_server;
        jobID = ''00050000101C9500_1700000000'';
        (r1, s1) = handleCancelDownload example_host jobID s0;
        (r2, s2) = handleCancelDownload example_host jobID s1
    in status_code r0 = 202 \<and> status_code r1 = 200
       \<and> map_option Status (jobs s1 jobID) = Some ''cancelled''
       \<and> status_code r2 = 200 \<and> status_code r2 \<noteq> 400)"
  by (simp add: handleStartDownload_def example_pkg_def example_host_def example_request_def
     example_server_def ParseUint_16_64_def hex_digit_value_def Let_def
     GetTitleEntryFromTid_def Sprintf_d_def Unix_def decimal_nat.simps digit_char_def
     NewAPIProgressReporter_def handleCancelDownload_def)

text \<open>
  C3, amended: a cancellation request answers 404 exactly for an unknown job ID; for a
  registered job it answers 400 when the state is \<open>completed\<close> or \<open>failed\<close> and leaves the
  server unchanged; in every other state, \<open>cancelled\<close> included, it answers 200 and the
  job is \<open>cancelled\<close> afterwards, so a second cancellation right after a first one answers
  200 again.
\<close>

theorem handleCancelDownload_codes:
  "(jobs s jobID = None \<longrightarrow>
      handleCancelDownload h jobID s = (Http_Error 404 ''Job not found'', s))
   \<and> (\<forall>job. jobs s jobID = Some job \<longrightarrow>
        status_code (fst (handleCancelDownload h jobID s)) \<noteq> 404
        \<and> (Status job = ''completed'' \<or> Status job = ''failed'' \<longrightarrow>
             handleCancelDownload h jobID s
               = (Http_Error 400 ''Cannot cancel completed or failed job'', s))
        \<and> (Status job \<noteq> ''completed'' \<and> Status job \<noteq> ''failed'' \<longrightarrow>
             status_code (fst (handleCancelDownload h jobID s)) = 200
             \<and> map_option Status (jobs (snd (handleCancelDownload h jobID s)) jobID)
                 = Some ''cancelled''
             \<and> status_code
                 (fst (handleCancelDownload h' jobID (snd (handleCancelDownload h jobID s))))
                 = 200
             \<and> map_option Status
                  (jobs (snd (handleCancelDownload h' jobID
                                (snd (handleCancelDownload h jobID s)))) jobID)
                 = Some ''cancelled''))"
  by (auto simp: handleCancelDownload_def Let_def)

theorem handleCancelDownload_codes_witness:
  "jobs example_server ''nope'' = None
   \<and> handleCancelDownload example_host ''nope'' example_server
       = (Http_Error 404 ''Job not found'', example_server)
   \<and> handleCancelDownload example_host ''j''
        (example_server\<lparr>jobs := [''j'' \<mapsto> example_job\<lparr>Status := ''completed''\<rparr>]\<rparr>)
       = (Http_Error 400 ''Cannot cancel completed or failed job'',
          example_server\<lparr>jobs := [''j'' \<mapsto> example_job\<lparr>Status := ''completed''\<rparr>]\<rparr>)
   \<and> status_code (fst (handleCancelDownload example_host ''j''
        (example_server\<lparr>jobs := [''j'' \<mapsto> example_job\<lparr>Status := ''downloading''\<rparr>]\<rparr>))) = 200
   \<and> status_code (fst (handleCancelDownload example_host ''j''
        (snd (handleCancelDownload example_host ''j''
        (example_server\<lparr>jobs := [''j'' \<mapsto> example_job\<lparr>Status := ''downloading''\<rparr>]\<rparr>))))) = 200"
  using handleCancelDownload_codes [of example_server "''nope''" example_host example_host]
    handleCancelDownload_codes
      [of "example_server\<lparr>jobs := [''j'' \<mapsto> example_job\<lparr>Status := ''completed''\<rparr>]\<rparr>" "''j''"
          example_host example_host]
    handleCancelDownload_codes
      [of "example_server\<lparr>jobs := [''j'' \<mapsto> example_job\<lparr>Status := ''downloading''\<rparr>]\<rparr>" "''j''"
          example_host example_host]
  by (simp add: example_server_def)

section \<open>Properties of the catalog filters\<close>

text \<open>
  The model against the repository's own examples: the platform names that
  \<open>TestPlatformFromTitleID\<close> expects, the listing scenario, and the 400 answers for
  unknown tokens.
\<close>

lemma getPlatformFromTitleID_tests:
  "getPlatformFromTitleID 0x00050000101C9500 = ''Wii U''"
  "getPlatformFromTitleID 0x00040000000B8B00 = ''3DS''"
  "getPlatformFromTitleID 0x0100000000010000 = ''Switch''"
  "getPlatformFromTitleID 0x0000000700000000 = ''vWii''"
  "getPlatformFromTitleID 0x0007000800000000 = ''vWii''"
  "getPlatformFromTitleID 0x0001000000000000 = ''Wii''"
  by (simp_all add: getPlatformFromTitleID_def Let_def)

lemma handleListTitles_scenario:
  "handleListTitles example_pkg ''game'' ''mario'' ''usa'' []
     = Titles_json 1
         [\<lparr>json_id = ''00050000101C9500'', json_name = ''Super Mario 3D World'',
           json_region = ''USA'', json_type = ''Game'', json_platform = ''Wii U''\<rparr>]"
  "handleListTitles example_pkg ''game'' ''mario'' ''japan'' [] = Titles_json 0 []"
  by code_simp+

lemma handleListTitles_bad_tokens:
  "handleListTitles example_pkg ''invalid'' [] [] [] = Http_Error 400 ''Invalid category''"
  "handleListTitles example_pkg [] [] ''invalid'' [] = Http_Error 400 ''Invalid region''"
  "handleListTitles example_pkg [] [] [] ''invalid'' = Http_Error 400 ''Invalid platform''"
  by code_simp+

text \<open>
  The search filter keeps every entry whose lower-cased name contains the lower-cased
  search string, and the empty search string matches every name.
\<close>

lemma toLower_char_eq:
  assumes "toLower_char x = toLower_char y"
  shows "byte x = byte y \<or> byte x = byte y + 32 \<or> byte x = byte y - 32"
proof -
  have b: "\<And>c. byte c = of_nat (of_char c :: nat)"
    by (simp add: byte_def of_nat_of_char)
  have inj: "\<And>n c. n < 256 \<Longrightarrow> char_of n = c \<Longrightarrow> (of_char c :: nat) = n"
    by auto
  consider (uu) "65 \<le> (of_char x :: nat) \<and> (of_char x :: nat) \<le> 90" "65 \<le> (of_char y :: nat) \<and> (of_char y :: nat) \<le> 90"
    | (un) "65 \<le> (of_char x :: nat) \<and> (of_char x :: nat) \<le> 90" "\<not> (65 \<le> (of_char y :: nat) \<and> (of_char y :: nat) \<le> 90)"
    | (nu) "\<not> (65 \<le> (of_char x :: nat) \<and> (of_char x :: nat) \<le> 90)" "65 \<le> (of_char y :: nat) \<and> (of_char y :: nat) \<le> 90"
    | (nn) "\<not> (65 \<le> (of_char x :: nat) \<and> (of_char x :: nat) \<le> 90)" "\<not> (65 \<le> (of_char y :: nat) \<and> (of_char y :: nat) \<le> 90)"
    by blast
  then show ?thesis
  proof cases
    case uu
    then have "char_of ((of_char x :: nat) + 32) = (char_of ((of_char y :: nat) + 32) :: char)"
      using assms by (simp add: toLower_char_def)
    then have "((of_char x :: nat) + 32) mod 256 = ((of_char y :: nat) + 32) mod 256"
      by (simp add: char_of_eq_iff take_bit_eq_mod)
    then have "(of_char x :: nat) = of_char y" using uu by simp
    then show ?thesis by (simp add: b)
  next
    case un
    have "toLower_char y = y" using un(2) by (auto simp: toLower_char_def)
    moreover have "toLower_char x = char_of ((of_char x :: nat) + 32)" using un(1) by (simp add: toLower_char_def)
    ultimately have c: "char_of ((of_char x :: nat) + 32) = y"
      using assms by metis
    have "(of_char x :: nat) + 32 < 256" using un(1) by simp
    then have e: "(of_char y :: nat) = of_char x + 32"
      using c by (rule inj)
    have "byte y = of_nat ((of_char x :: nat) + 32)" by (simp only: b e)
    then have "byte y = byte x + 32" by (simp add: b)
    then show ?thesis by simp
  next
    case nu
    have "toLower_char x = x" using nu(1) by (auto simp: toLower_char_def)
    moreover have "toLower_char y = char_of ((of_char y :: nat) + 32)" using nu(2) by (simp add: toLower_char_def)
    ultimately have c: "char_of ((of_char y :: nat) + 32) = x"
      using assms by metis
    have "(of_char y :: nat) + 32 < 256" using nu(2) by simp
    then have e: "(of_char x :: nat) = of_char y + 32"
      using c by (rule inj)
    have "byte x = of_nat ((of_char y :: nat) + 32)" by (simp only: b e)
    then have "byte x = byte y + 32" by (simp add: b)
    then show ?thesis by simp
  next
    case nn
    have "toLower_char x = x" using nn(1) by (auto simp: toLower_char_def)
    moreover have "toLower_char y = y" using nn(2) by (auto simp: toLower_char_def)
    ultimately have "x = y" using assms by metis
    then show ?thesis by simp
  qed
qed

lemma equalIgnoreCase_toLower:
  "map toLower_char a = map toLower_char b \<Longrightarrow> equalIgnoreCase a b"
proof (induction a arbitrary: b)
  case Nil
  then show ?case by (simp add: equalIgnoreCase_def)
next
  case (Cons x a)
  then obtain y b' where b: "b = y # b'" by (cases b) auto
  have "toLower_char x = toLower_char y" and "map toLower_char a = map toLower_char b'" using Cons.prems by (simp_all add: b)
  then show ?case
    using Cons.IH [of b'] toLower_char_eq [of x y]
    by (auto simp: equalIgnoreCase_def b split: if_splits)
qed

lemma containsIgnoreCase_complete:
  assumes sub: "is_substring (toLower sub) (toLower s)"
  shows "containsIgnoreCase s sub"
proof -
  from sub have "is_substring (map toLower_char sub) (map toLower_char s)"
    by (simp add: toLower_def)
  then obtain i where i0: "i \<in> set [0..<Suc (length (map toLower_char s))]"
    and eq0: "take (length (map toLower_char sub)) (drop i (map toLower_char s)) = map toLower_char sub"
    unfolding is_substring_def list_ex_iff by blast
  have i: "i \<le> length s" using i0 by auto
  have eq: "take (length sub) (drop i (map toLower_char s)) = map toLower_char sub" using eq0 by simp
  have m: "map toLower_char (take (length sub) (drop i s)) = map toLower_char sub"
    using eq by (simp add: take_map drop_map)
  then have "length (take (length sub) (drop i s)) = length sub"
    by (metis length_map)
  then have len: "i + length sub \<le> length s" using i by simp
  have "equalIgnoreCase (take (length sub) (drop i s)) sub"
    using m by (rule equalIgnoreCase_toLower)
  moreover have "i \<in> set [0..<nat (int (length s) - int (length sub) + 1)]"
    using len by simp
  ultimately have "containsIgnoreCaseHelper s sub"
    by (auto simp: containsIgnoreCaseHelper_def list_ex_iff)
  then show ?thesis using len by (simp add: containsIgnoreCase_def)
qed

lemma containsIgnoreCase_empty: "containsIgnoreCase s []"
proof -
  have "equalIgnoreCase (take (length ([] :: string)) (drop 0 s)) []"
    by (simp add: equalIgnoreCase_def)
  moreover have "0 \<in> set [0..<nat (int (length s) - int (length ([] :: string)) + 1)]"
    by simp
  ultimately have "containsIgnoreCaseHelper s []"
    unfolding containsIgnoreCaseHelper_def list_ex_iff by blast
  then show ?thesis by (simp add: containsIgnoreCase_def)
qed

text \<open>
  C7. The search filter should keep an entry exactly when its lower-cased name contains
  the lower-cased search string. \<open>equalIgnoreCase\<close> accepts any two bytes that differ by
  32, letters or not: \<open>S\<close> and \<open>3\<close> compare equal, so the search \<open>3onic\<close> selects the
  entry named \<open>Sonic\<close> from the example catalog although \<open>sonic\<close> does not contain
  \<open>3onic\<close>.
\<close>

theorem containsIgnoreCase_matches_non_letters:
  "containsIgnoreCase ''Sonic'' ''3onic''
   \<and> \<not> is_substring (toLower ''3onic'') (toLower ''Sonic'')
   \<and> filterBySearch ''3onic'' (titleEntry example_pkg)
       = [\<lparr>TitleID = 0x00040000000B8B00, Name = ''Sonic'', Region = 1\<rparr>]
   \<and> equalIgnoreCase ''S'' ''3''"
proof -
  have a: "containsIgnoreCase ''Sonic'' ''3onic''"
    by (simp add: containsIgnoreCase_def containsIgnoreCaseHelper_def equalIgnoreCase_def byte_def)
  have b: "\<not> is_substring (toLower ''3onic'') (toLower ''Sonic'')"
    by code_simp
  have c: "\<not> containsIgnoreCase ''Super Mario 3D World'' ''3onic''"
    by code_simp
  have d: "equalIgnoreCase ''S'' ''3''"
    by (simp add: equalIgnoreCase_def byte_def)
  show ?thesis
    using a b c d by (simp add: filterBySearch_def example_pkg_def)
qed

text \<open>
  C8. For every category, region and platform token that the handlers accept, filtering
  is idempotent: applying the platform filter, the region filter (of the service and of
  the command runner) or the category selection again to the sequence it produced gives
  that same sequence, in the same order.
\<close>

theorem filters_idempotent:
  "(filterByPlatform platform entries = Inr result1 \<longrightarrow>
      filterByPlatform platform result1 = Inr result1)
   \<and> (filterByRegion pkg region entries = Inr result2 \<longrightarrow>
        filterByRegion pkg region result2 = Inr result2)
   \<and> (filterByRegion_cli pkg region entries = Inr result3 \<longrightarrow>
        filterByRegion_cli pkg region result3 = Inr result3)
   \<and> (categoryFlag pkg category = Some flag \<longrightarrow>
        filter (inCategory pkg flag) (GetTitleEntries pkg flag) = GetTitleEntries pkg flag)"
proof (intro conjI impI)
  assume "filterByPlatform platform entries = Inr result1"
  then show "filterByPlatform platform result1 = Inr result1"
    by (auto simp: filterByPlatform_def split: if_splits option.splits)
next
  assume "filterByRegion pkg region entries = Inr result2"
  then show "filterByRegion pkg region result2 = Inr result2"
    by (auto simp: filterByRegion_def split: if_splits option.splits)
next
  assume "filterByRegion_cli pkg region entries = Inr result3"
  then show "filterByRegion_cli pkg region result3 = Inr result3"
    by (auto simp: filterByRegion_cli_def split: if_splits option.splits)
next
  show "filter (inCategory pkg flag) (GetTitleEntries pkg flag) = GetTitleEntries pkg flag"
    by (simp add: GetTitleEntries_def)
qed

theorem filters_idempotent_witness:
  "filterByPlatform ''wiiu'' (titleEntry example_pkg) = Inr (take 2 (titleEntry example_pkg))
   \<and> filterByPlatform ''wiiu'' (take 2 (titleEntry example_pkg))
       = Inr (take 2 (titleEntry example_pkg))
   \<and> filterByRegion example_pkg ''usa'' (titleEntry example_pkg)
       = Inr (take 1 (titleEntry example_pkg))
   \<and> filterByRegion example_pkg ''usa'' (take 1 (titleEntry example_pkg))
       = Inr (take 1 (titleEntry example_pkg))
   \<and> filterByRegion_cli example_pkg ''usa'' (titleEntry example_pkg)
       = Inr (take 1 (titleEntry example_pkg))
   \<and> filterByRegion_cli example_pkg ''usa'' (take 1 (titleEntry example_pkg))
       = Inr (take 1 (titleEntry example_pkg))
   \<and> categoryFlag example_pkg ''game'' = Some 0
   \<and> GetTitleEntries example_pkg 0 = titleEntry example_pkg
   \<and> filter (inCategory example_pkg 0) (GetTitleEntries example_pkg 0)
       = GetTitleEntries example_pkg 0"
proof -
  have p: "filterByPlatform ''wiiu'' (titleEntry example_pkg) = Inr (take 2 (titleEntry example_pkg))"
    by (simp add: filterByPlatform_def platformPrefixes_def example_pkg_def)
  have r: "filterByRegion example_pkg ''usa'' (titleEntry example_pkg)
             = Inr (take 1 (titleEntry example_pkg))"
    by (simp add: filterByRegion_def regionMask_def example_pkg_def)
  have rc: "filterByRegion_cli example_pkg ''usa'' (titleEntry example_pkg)
             = Inr (take 1 (titleEntry example_pkg))"
    by (simp add: filterByRegion_cli_def regionMask_def example_pkg_def)
  have c: "categoryFlag example_pkg ''game'' = Some 0"
    by (simp add: categoryFlag_def example_pkg_def)
  have g: "GetTitleEntries example_pkg 0 = titleEntry example_pkg"
    by (simp add: GetTitleEntries_def example_pkg_def)
  show ?thesis
    using p r rc c g
      filters_idempotent [of "''wiiu''" "titleEntry example_pkg" "take 2 (titleEntry example_pkg)"
        example_pkg "''usa''" "take 1 (titleEntry example_pkg)" "take 1 (titleEntry example_pkg)"
        "''game''" 0]
    by simp
qed

section \<open>Properties of the two reporters\<close>

lemma cli_run_append: "cli_run (xs @ ys) c = cli_run ys (cli_run xs c)"
  by (induction xs arbitrary: c) auto

lemma api_run_append: "api_run (xs @ ys) j = api_run ys (api_run xs j)"
  by (induction xs arbitrary: j) auto

lemma UpdateDownloadProgress_cli_fields:
  "fileProgress (UpdateDownloadProgress_cli d f c) = fmupd f d (fileProgress c)"
  "downloadedSize (UpdateDownloadProgress_cli d f c) = sum_sizes (fmupd f d (fileProgress c))"
  by (simp_all add: UpdateDownloadProgress_cli_def printProgress_def Let_def)

lemma Downloaded_UpdateDownloadProgress_api:
  "Downloaded (UpdateDownloadProgress_api clk d f j) = d"
  by (simp add: UpdateDownloadProgress_api_def Let_def)

lemma cli_reports_snoc:
  "cli_run (cli_reports (tr @ [(clk, k, v)])) c
     = UpdateDownloadProgress_cli v k (cli_run (cli_reports tr) c)"
  by (simp add: cli_reports_def cli_run_append)

lemma api_reports_snoc:
  "api_run (api_reports (tr @ [(clk, k, v)])) j
     = UpdateDownloadProgress_api clk v k (api_run (api_reports tr) j)"
  by (simp add: api_reports_def api_run_append)

lemma fileProgress_cli_reports:
  "fmlookup (fileProgress (cli_run (cli_reports tr) c)) k
     = (case map_of (rev (map snd tr)) k of Some v \<Rightarrow> Some v | None \<Rightarrow> fmlookup (fileProgress c) k)"
proof (induction tr rule: rev_induct)
  case Nil
  show ?case by (simp add: cli_reports_def)
next
  case (snoc x tr)
  obtain clk k' v where x: "x = (clk, k', v)" by (cases x)
  show ?case
    by (simp add: x cli_reports_snoc UpdateDownloadProgress_cli_fields snoc.IH)
qed

lemma fmdom_cli_reports:
  "fmdom (fileProgress (cli_run (cli_reports tr) c))
     = fset_of_list (map fst (map snd tr)) |\<union>| fmdom (fileProgress c)"
proof (induction tr rule: rev_induct)
  case Nil
  show ?case by (simp add: cli_reports_def)
next
  case (snoc x tr)
  obtain clk k' v where x: "x = (clk, k', v)" by (cases x)
  show ?case
    by (simp add: x cli_reports_snoc UpdateDownloadProgress_cli_fields snoc.IH)
qed

lemma downloadedSize_cli_reports:
  "tr \<noteq> [] \<Longrightarrow> downloadedSize (cli_run (cli_reports tr) c)
     = sum_sizes (fileProgress (cli_run (cli_reports tr) c))"
proof (induction tr rule: rev_induct)
  case Nil
  then show ?case by simp
next
  case (snoc x tr)
  obtain clk k' v where x: "x = (clk, k', v)" by (cases x)
  show ?case
    by (simp add: x cli_reports_snoc UpdateDownloadProgress_cli_fields)
qed

lemma cli_fresh_aggregate:
  "downloadedSize (cli_run (cli_reports tr) NewCLIProgressReporter)
     = (\<Sum>k \<in> fst ` set (map snd tr). latest (map snd tr) k)"
proof (cases "tr = []")
  case True
  then show ?thesis by (simp add: cli_reports_def NewCLIProgressReporter_def)
next
  case False
  have dom: "fset (fmdom (fileProgress (cli_run (cli_reports tr) NewCLIProgressReporter)))
               = fst ` set (map snd tr)"
    by (simp add: fmdom_cli_reports NewCLIProgressReporter_def fset_of_list.rep_eq image_image)
  have look: "\<And>k. k \<in> fst ` set (map snd tr) \<Longrightarrow>
      the (fmlookup (fileProgress (cli_run (cli_reports tr) NewCLIProgressReporter)) k)
        = latest (map snd tr) k"
  proof -
    fix k assume "k \<in> fst ` set (map snd tr)"
    then have "k \<in> fst ` set (rev (map snd tr))" by simp
    then obtain v where "map_of (rev (map snd tr)) k = Some v"
      by (metis domD dom_map_of_conv_image_fst)
    then show "the (fmlookup (fileProgress (cli_run (cli_reports tr) NewCLIProgressReporter)) k)
        = latest (map snd tr) k"
      by (simp add: fileProgress_cli_reports latest_def)
  qed
  show ?thesis
    unfolding downloadedSize_cli_reports [OF False] sum_sizes_def dom
    by (rule sum.cong) (simp_all add: look)
qed

lemma api_last_report:
  "tr \<noteq> [] \<Longrightarrow> Downloaded (api_run (api_reports tr) j) = snd (snd (last tr))"
proof (induction tr rule: rev_induct)
  case Nil
  then show ?case by simp
next
  case (snoc x tr)
  obtain clk k' v where x: "x = (clk, k', v)" by (cases x)
  show ?case
    by (simp add: x api_reports_snoc Downloaded_UpdateDownloadProgress_api)
qed


lemma printProgress_fields [simp]:
  "gameTitle (printProgress c) = gameTitle c"
  "cancelled (printProgress c) = cancelled c"
  "totalSize (printProgress c) = totalSize c"
  "downloadedSize (printProgress c) = downloadedSize c"
  "fileProgress (printProgress c) = fileProgress c"
  by (simp_all add: printProgress_def)

lemma UpdateDownloadProgress_api_fields:
  "TitleName (UpdateDownloadProgress_api clk d f j) = TitleName j"
  "Status (UpdateDownloadProgress_api clk d f j) = Status j"
  "DownloadSize (UpdateDownloadProgress_api clk d f j) = DownloadSize j"
  by (simp_all add: UpdateDownloadProgress_api_def Let_def)

lemmas sink_defs =
  SetGameTitle_api_def UpdateDecryptionProgress_api_def SetCancelled_api_def
  SetDownloadSize_api_def ResetTotals_api_def MarkFileAsDone_api_def
  SetTotalDownloadedForFile_api_def SetStartTime_api_def
  SetGameTitle_cli_def UpdateDownloadProgress_cli_def UpdateDecryptionProgress_cli_def
  SetCancelled_cli_def SetDownloadSize_cli_def ResetTotals_cli_def MarkFileAsDone_cli_def
  SetTotalDownloadedForFile_cli_def SetStartTime_cli_def

lemma step_title:
  "gameTitle c = TitleName j \<Longrightarrow> gameTitle (cli_call call c) = TitleName (api_call clk call j)"
  by (cases call) (simp_all add: sink_defs UpdateDownloadProgress_api_fields Let_def)

lemma step_cancelled:
  "cancelled c = (Status j = ''cancelled'') \<Longrightarrow>
   cancelled (cli_call call c) = (Status (api_call clk call j) = ''cancelled'')"
  by (cases call) (simp_all add: sink_defs UpdateDownloadProgress_api_fields Let_def)

lemma step_total:
  "totalSize c = DownloadSize j \<Longrightarrow> call \<noteq> ResetTotals \<Longrightarrow>
   totalSize (cli_call call c) = DownloadSize (api_call clk call j)"
  by (cases call) (simp_all add: sink_defs UpdateDownloadProgress_api_fields Let_def)

lemma sum_sizes_single:
  assumes "fmdom m |\<subseteq>| {|f|}"
  shows "sum_sizes (fmupd f d m) = d"
proof -
  have "fset (fmdom m) \<subseteq> {f}"
    using assms by (auto simp: less_eq_fset.rep_eq)
  then have eq: "fset (fmdom (fmupd f d m)) = {f}" by auto
  show ?thesis unfolding sum_sizes_def eq by simp
qed

lemma step_aggregate:
  assumes "downloadedSize c = Downloaded j" and "fmdom (fileProgress c) |\<subseteq>| {|f|}"
    and "file_key call = None \<or> file_key call = Some f"
  shows "downloadedSize (cli_call call c) = Downloaded (api_call clk call j)
         \<and> fmdom (fileProgress (cli_call call c)) |\<subseteq>| {|f|}"
  using assms
  by (cases call)
    (auto simp: sink_defs Downloaded_UpdateDownloadProgress_api Let_def file_key_def
      sum_sizes_single)


lemma runs_agree_title:
  "gameTitle c = TitleName j \<Longrightarrow>
   gameTitle (cli_run (map snd calls) c) = TitleName (api_run calls j)"
proof (induction calls arbitrary: c j)
  case Nil
  then show ?case by simp
next
  case (Cons a calls)
  obtain clk call where a: "a = (clk, call)" by (cases a)
  show ?case
    using Cons.IH [OF step_title [OF Cons.prems, of call clk]] by (simp add: a)
qed

lemma runs_agree_cancelled:
  "cancelled c = (Status j = ''cancelled'') \<Longrightarrow>
   cancelled (cli_run (map snd calls) c) = (Status (api_run calls j) = ''cancelled'')"
proof (induction calls arbitrary: c j)
  case Nil
  then show ?case by simp
next
  case (Cons a calls)
  obtain clk call where a: "a = (clk, call)" by (cases a)
  show ?case
    using Cons.IH [OF step_cancelled [OF Cons.prems, of call clk]] by (simp add: a)
qed

lemma runs_agree_total:
  "totalSize c = DownloadSize j \<Longrightarrow> ResetTotals \<notin> snd ` set calls \<Longrightarrow>
   totalSize (cli_run (map snd calls) c) = DownloadSize (api_run calls j)"
proof (induction calls arbitrary: c j)
  case Nil
  then show ?case by simp
next
  case (Cons a calls)
  obtain clk call where a: "a = (clk, call)" by (cases a)
  have ne: "call \<noteq> ResetTotals" and rest: "ResetTotals \<notin> snd ` set calls"
    using Cons.prems(2) by (auto simp: a)
  show ?case
    using Cons.IH [OF step_total [OF Cons.prems(1) ne, of clk] rest] by (simp add: a)
qed

lemma runs_agree_aggregate:
  "downloadedSize c = Downloaded j \<Longrightarrow> fmdom (fileProgress c) |\<subseteq>| {|f|} \<Longrightarrow>
   list_all (\<lambda>(clk, call). file_key call = None \<or> file_key call = Some f) calls \<Longrightarrow>
   downloadedSize (cli_run (map snd calls) c) = Downloaded (api_run calls j)"
proof (induction calls arbitrary: c j)
  case Nil
  then show ?case by simp
next
  case (Cons a calls)
  obtain clk call where a: "a = (clk, call)" by (cases a)
  have k: "file_key call = None \<or> file_key call = Some f"
    and rest: "list_all (\<lambda>(clk, call). file_key call = None \<or> file_key call = Some f) calls"
    using Cons.prems(3) by (auto simp: a)
  note st = step_aggregate [OF Cons.prems(1,2) k, of clk]
  show ?case
    using Cons.IH [OF conjunct1 [OF st] conjunct2 [OF st] rest] by (simp add: a)
qed


text \<open>
  C2, as claimed: in each reporter the aggregate is the sum over the keys of the value last
  reported for the key. Counterexample: after \<open>a.bin\<close> reports 500 and \<open>b.bin\<close> reports
  300, the service reporter's \<open>Downloaded\<close> is 300, while the sum of the latest values
  is 800.
\<close>

theorem api_aggregate_counterexample:
  "Downloaded (api_run (api_reports [(example_clock, ''a.bin'', 500), (example_clock, ''b.bin'', 300)])
                 example_job) = 300
   \<and> (\<Sum>k \<in> fst ` set [(''a.bin'', 500), (''b.bin'', 300)].
         latest [(''a.bin'', 500), (''b.bin'', 300)] k) = 800
   \<and> Downloaded (api_run (api_reports [(example_clock, ''a.bin'', 500), (example_clock, ''b.bin'', 300)])
                   example_job)
       \<noteq> (\<Sum>k \<in> fst ` set (map snd [(example_clock, ''a.bin'', 500), (example_clock, ''b.bin'', 300)]).
            latest (map snd [(example_clock, ''a.bin'', 500), (example_clock, ''b.bin'', 300)]) k)"
  by (simp add: api_reports_def Downloaded_UpdateDownloadProgress_api latest_def)

text \<open>
  C2, amended: for every run of \<open>UpdateDownloadProgress\<close> calls on a new console
  reporter, \<open>downloadedSize\<close> is the \<open>int64\<close> sum, over the keys reported, of the value
  last reported for each key (so it does not depend on the order of calls on distinct
  keys and repeating a call changes nothing); in the service reporter \<open>Downloaded\<close> is
  the value of the last call, whatever its key.
\<close>

theorem progress_aggregate:
  "downloadedSize (cli_run (cli_reports tr) NewCLIProgressReporter)
     = (\<Sum>k \<in> fst ` set (map snd tr). latest (map snd tr) k)
   \<and> (tr \<noteq> [] \<longrightarrow> Downloaded (api_run (api_reports tr) j) = snd (snd (last tr)))"
  by (simp add: cli_fresh_aggregate api_last_report)

theorem progress_aggregate_witness:
  "[(example_clock, ''b.bin'', 300), (example_clock, ''a.bin'', 500), (example_clock, ''a.bin'', 1000)]
     \<noteq> []
   \<and> downloadedSize
        (cli_run (cli_reports [(example_clock, ''b.bin'', 300), (example_clock, ''a.bin'', 500),
                               (example_clock, ''a.bin'', 1000)]) NewCLIProgressReporter)
       = 1300
   \<and> Downloaded
        (api_run (api_reports [(example_clock, ''b.bin'', 300), (example_clock, ''a.bin'', 500),
                               (example_clock, ''a.bin'', 1000)]) example_job)
       = 1000"
  using progress_aggregate
    [of "[(example_clock, ''b.bin'', 300), (example_clock, ''a.bin'', 500),
          (example_clock, ''a.bin'', 1000)]" example_job]
  by (simp add: latest_def)

text \<open>
  C4, as claimed: after every sequence of calls the two reporters hold equivalent recorded
  states. Counterexample: a title, an expected total of 1000 and byte reports for two
  files leave the console reporter at aggregate 800 and the service reporter at 300; a
  following \<open>ResetTotals\<close> leaves the expected totals at 0 and 1000.
\<close>

theorem reporters_differ_counterexample:
  "recorded_cli (cli_run [SetGameTitle ''Super Mario 3D World'', SetDownloadSize 1000,
                          UpdateDownloadProgress 500 ''a.bin'', UpdateDownloadProgress 300 ''b.bin'']
                   NewCLIProgressReporter)
     = (''Super Mario 3D World'', 1000, 800, False)
   \<and> recorded_api (api_run [(example_clock, SetGameTitle ''Super Mario 3D World''),
                            (example_clock, SetDownloadSize 1000),
                            (example_clock, UpdateDownloadProgress 500 ''a.bin''),
                            (example_clock, UpdateDownloadProgress 300 ''b.bin'')]
                     example_job)
       = (''Super Mario 3D World'', 1000, 300, False)
   \<and> recorded_cli (cli_run [SetDownloadSize 1000, ResetTotals] NewCLIProgressReporter)
       = ([], 0, 0, False)
   \<and> recorded_api (api_run [(example_clock, SetDownloadSize 1000), (example_clock, ResetTotals)]
                     (example_job\<lparr>TitleName := []\<rparr>))
       = ([], 1000, 0, False)"
  by (simp add: recorded_cli_def recorded_api_def sink_defs NewCLIProgressReporter_def
      UpdateDownloadProgress_api_fields Downloaded_UpdateDownloadProgress_api
      Cancelled_cli_def Cancelled_api_def printProgress_def sum_sizes_def example_job_def Let_def)

text \<open>
  Why the aggregate needs a condition on the console reporter's per-file table: after
  \<open>SetTotalDownloadedForFile g 700\<close> both reporters still record aggregate 0, but the
  console reporter's table holds \<open>g\<close>; the single report \<open>f 500\<close> then gives 1200 on the
  console and 500 in the service.
\<close>

lemma aggregate_needs_single_key_table:
  "recorded_cli (cli_run [SetTotalDownloadedForFile ''g'' 700] NewCLIProgressReporter)
     = ([], 0, 0, False)
   \<and> recorded_api (api_run [(example_clock, SetTotalDownloadedForFile ''g'' 700)]
                     (example_job\<lparr>TitleName := []\<rparr>))
       = ([], 0, 0, False)
   \<and> downloadedSize (cli_run [SetTotalDownloadedForFile ''g'' 700,
                               UpdateDownloadProgress 500 ''f''] NewCLIProgressReporter) = 1200
   \<and> Downloaded (api_run [(example_clock, SetTotalDownloadedForFile ''g'' 700),
                           (example_clock, UpdateDownloadProgress 500 ''f'')]
                    (example_job\<lparr>TitleName := []\<rparr>)) = 500"
  by (simp add: recorded_cli_def recorded_api_def sink_defs NewCLIProgressReporter_def
      Downloaded_UpdateDownloadProgress_api Cancelled_cli_def Cancelled_api_def
      printProgress_def sum_sizes_def example_job_def Let_def)

text \<open>
  C4, amended: run the two reporters on the same sequence of calls. If their titles agree
  at the start, they agree at the end; likewise their cancelled flags. If their expected
  totals agree at the start and the sequence has no \<open>ResetTotals\<close>, the totals agree at
  the end (the console reporter zeroes the total, the service reporter keeps it). If
  their aggregates agree at the start, the console reporter's per-file table holds no key
  other than one key \<open>f\<close> at the start, and every call that carries a file key carries
  \<open>f\<close>, the aggregates agree at the end (the service reporter keeps only the value last
  reported, the console reporter sums its table).
\<close>

theorem reporters_agree:
  "(gameTitle c = TitleName j \<longrightarrow>
      gameTitle (cli_run (map snd calls) c) = TitleName (api_run calls j))
   \<and> (Cancelled_cli c = Cancelled_api j \<longrightarrow>
        Cancelled_cli (cli_run (map snd calls) c) = Cancelled_api (api_run calls j))
   \<and> (totalSize c = DownloadSize j \<and> ResetTotals \<notin> snd ` set calls \<longrightarrow>
        totalSize (cli_run (map snd calls) c) = DownloadSize (api_run calls j))
   \<and> (downloadedSize c = Downloaded j \<and> fmdom (fileProgress c) |\<subseteq>| {|f|}
        \<and> list_all (\<lambda>(clk, call). file_key call = None \<or> file_key call = Some f) calls \<longrightarrow>
        downloadedSize (cli_run (map snd calls) c) = Downloaded (api_run calls j))"
  using runs_agree_title [of c j calls] runs_agree_cancelled [of c j calls]
    runs_agree_total [of c j calls] runs_agree_aggregate [of c j f calls]
  by (simp add: Cancelled_cli_def Cancelled_api_def)

theorem reporters_agree_witness:
  "gameTitle (NewCLIProgressReporter\<lparr>gameTitle := ''Super Mario 3D World''\<rparr>)
     = TitleName example_job
   \<and> Cancelled_cli (NewCLIProgressReporter\<lparr>gameTitle := ''Super Mario 3D World''\<rparr>)
       = Cancelled_api example_job
   \<and> totalSize (NewCLIProgressReporter\<lparr>gameTitle := ''Super Mario 3D World''\<rparr>)
       = DownloadSize example_job
   \<and> ResetTotals \<notin> snd ` set [(example_clock, SetDownloadSize 1000),
                  (example_clock, UpdateDownloadProgress 500 ''a.bin''),
                  (example_clock, Cancelled), (example_clock, MarkFileAsDone ''a.bin''),
                  (example_clock, UpdateDownloadProgress 1000 ''a.bin''),
                  (example_clock, SetCancelled)]
   \<and> downloadedSize (NewCLIProgressReporter\<lparr>gameTitle := ''Super Mario 3D World''\<rparr>)
       = Downloaded example_job
   \<and> fmdom (fileProgress (NewCLIProgressReporter\<lparr>gameTitle := ''Super Mario 3D World''\<rparr>))
       |\<subseteq>| {|''a.bin''|}
   \<and> list_all (\<lambda>(clk, call). file_key call = None \<or> file_key call = Some ''a.bin'')
        [(example_clock, SetDownloadSize 1000),
         (example_clock, UpdateDownloadProgress 500 ''a.bin''),
         (example_clock, Cancelled), (example_clock, MarkFileAsDone ''a.bin''),
         (example_clock, UpdateDownloadProgress 1000 ''a.bin''),
         (example_clock, SetCancelled)]
   \<and> recorded_cli
        (cli_run [SetDownloadSize 1000, UpdateDownloadProgress 500 ''a.bin'', Cancelled,
                  MarkFileAsDone ''a.bin'', UpdateDownloadProgress 1000 ''a.bin'', SetCancelled]
           (NewCLIProgressReporter\<lparr>gameTitle := ''Super Mario 3D World''\<rparr>))
       = (''Super Mario 3D World'', 1000, 1000, True)
   \<and> recorded_api
        (api_run [(example_clock, SetDownloadSize 1000),
                  (example_clock, UpdateDownloadProgress 500 ''a.bin''),
                  (example_clock, Cancelled), (example_clock, MarkFileAsDone ''a.bin''),
                  (example_clock, UpdateDownloadProgress 1000 ''a.bin''),
                  (example_clock, SetCancelled)] example_job)
       = (''Super Mario 3D World'', 1000, 1000, True)"
  using reporters_agree
    [of "NewCLIProgressReporter\<lparr>gameTitle := ''Super Mario 3D World''\<rparr>" example_job
        "[(example_clock, SetDownloadSize 1000),
          (example_clock, UpdateDownloadProgress 500 ''a.bin''),
          (example_clock, Cancelled), (example_clock, MarkFileAsDone ''a.bin''),
          (example_clock, UpdateDownloadProgress 1000 ''a.bin''),
          (example_clock, SetCancelled)]" "''a.bin''"]
  by (simp add: recorded_cli_def recorded_api_def sink_defs NewCLIProgressReporter_def
      UpdateDownloadProgress_api_fields Downloaded_UpdateDownloadProgress_api
      Cancelled_cli_def Cancelled_api_def printProgress_def sum_sizes_def example_job_def
      file_key_def Let_def)

end
